theory Spec2Isabelle
  imports Main "HOL-Library.Sublist" "HOL-Library.Word"
begin

section \<open>Google Docs tool server: values, transport and executor\<close>

text \<open>
  This theory embeds \<^verbatim>\<open>src/main.py\<close>: the credential lookup, the authenticated request
  executor \<^verbatim>\<open>make_api_request\<close> and the nine tool adapters. Python is dynamically typed, so
  the values that come back from the remote service are modelled by one datatype of decoded
  JSON values, and every operation the adapters apply to such a value (\<^verbatim>\<open>.get\<close>,
  \<^verbatim>\<open>len\<close>, \<^verbatim>\<open>in\<close>, subscripting, truth value) is a function that returns either the
  exception the interpreter would raise or the value. JSON numbers are integers here;
  fractional numbers are outside the model.
\<close>

subsection \<open>Python values\<close>

datatype json =
    JNull
  | JBool bool
  | JInt int
  | JStr string
  | JList "json list"
  | JObj "(string \<times> json) list"

type_synonym byte = "8 word"

text \<open>What the executor hands back: raw bytes, or decoded JSON.\<close>

datatype payload = RawBytes "byte list" | Decoded json

text \<open>An exception, by class; the string is what \<^verbatim>\<open>str(e)\<close> gives.\<close>

datatype exn =
    ValueError string
  | Exception string
  | AttributeError string
  | TypeError string
  | KeyError string
  | IndexError string

fun str_exn :: "exn \<Rightarrow> string" where
  "str_exn (ValueError m) = m"
| "str_exn (Exception m) = m"
| "str_exn (AttributeError m) = m"
| "str_exn (TypeError m) = m"
| "str_exn (KeyError m) = m"
| "str_exn (IndexError m) = m"

text \<open>A dict returned to the agent: keys in insertion order.\<close>

type_synonym envelope = "(string \<times> json) list"

definition keys :: "('k \<times> 'v) list \<Rightarrow> 'k list" where
  "keys kvs = map fst kvs"

subsection \<open>Strings\<close>

definition digit_char :: "nat \<Rightarrow> char" where
  "digit_char d = char_of (48 + d)"

fun str_nat :: "nat \<Rightarrow> string" where
  "str_nat n = (if n < 10 then [digit_char n] else str_nat (n div 10) @ [digit_char (n mod 10)])"

declare str_nat.simps [simp del]

text \<open>\<^verbatim>\<open>str(i)\<close> for an int.\<close>

definition str_int :: "int \<Rightarrow> string" where
  "str_int i = (if i < 0 then CHR ''-'' # str_nat (nat (- i)) else str_nat (nat i))"

text \<open>\<^verbatim>\<open>s in t\<close> for two strings: \<open>s\<close> occurs in \<open>t\<close> as a contiguous run.\<close>

fun str_contains :: "string \<Rightarrow> string \<Rightarrow> bool" where
  "str_contains s [] = (s = [])"
| "str_contains s (c # cs) = (prefix s (c # cs) \<or> str_contains s cs)"

text \<open>\<^verbatim>\<open>str.lower\<close>, on ASCII letters.\<close>

definition char_lower :: "char \<Rightarrow> char" where
  "char_lower c =
     (let n = (of_char c :: nat) in if 65 \<le> n \<and> n \<le> 90 then char_of (n + 32) else c)"

definition py_lower :: "string \<Rightarrow> string" where
  "py_lower s = map char_lower s"

text \<open>\<^verbatim>\<open>sep.join(xs)\<close>.\<close>

fun py_join :: "string \<Rightarrow> string list \<Rightarrow> string" where
  "py_join sep [] = []"
| "py_join sep [x] = x"
| "py_join sep (x # y # ys) = x @ sep @ py_join sep (y # ys)"

text \<open>A string between single quotes.\<close>

definition quoted :: "string \<Rightarrow> string" where
  "quoted s = [CHR 0x27] @ s @ [CHR 0x27]"

subsection \<open>Dynamic operations on decoded values\<close>

fun type_name :: "json \<Rightarrow> string" where
  "type_name JNull = ''NoneType''"
| "type_name (JBool _) = ''bool''"
| "type_name (JInt _) = ''int''"
| "type_name (JStr _) = ''str''"
| "type_name (JList _) = ''list''"
| "type_name (JObj _) = ''dict''"

definition no_attribute :: "string \<Rightarrow> string \<Rightarrow> exn" where
  "no_attribute ty attr =
     AttributeError (quoted ty @ '' object has no attribute '' @ quoted attr)"

text \<open>\<^verbatim>\<open>v.get(key, default)\<close>: only a dict has the method.\<close>

fun json_get :: "json \<Rightarrow> string \<Rightarrow> json \<Rightarrow> exn + json" where
  "json_get (JObj kvs) key dflt = Inr (case map_of kvs key of Some v \<Rightarrow> v | None \<Rightarrow> dflt)"
| "json_get v key dflt = Inl (no_attribute (type_name v) ''get'')"

text \<open>\<^verbatim>\<open>result.get(key, default)\<close> on what the executor returned.\<close>

fun result_get :: "payload \<Rightarrow> string \<Rightarrow> json \<Rightarrow> exn + json" where
  "result_get (Decoded v) key dflt = json_get v key dflt"
| "result_get (RawBytes b) key dflt = Inl (no_attribute ''bytes'' ''get'')"

text \<open>\<^verbatim>\<open>len(v)\<close>.\<close>

fun py_len :: "json \<Rightarrow> exn + nat" where
  "py_len (JStr s) = Inr (length s)"
| "py_len (JList xs) = Inr (length xs)"
| "py_len (JObj kvs) = Inr (length kvs)"
| "py_len v = Inl (TypeError (''object of type '' @ quoted (type_name v) @ '' has no len()''))"

text \<open>The truth value of \<^verbatim>\<open>v\<close> in a condition.\<close>

fun truthy :: "json \<Rightarrow> bool" where
  "truthy JNull = False"
| "truthy (JBool b) = b"
| "truthy (JInt i) = (i \<noteq> 0)"
| "truthy (JStr s) = (s \<noteq> [])"
| "truthy (JList xs) = (xs \<noteq> [])"
| "truthy (JObj kvs) = (kvs \<noteq> [])"

definition not_subscriptable :: "json \<Rightarrow> exn" where
  "not_subscriptable v =
     TypeError (quoted (type_name v) @ '' object is not subscriptable'')"

text \<open>\<^verbatim>\<open>v[0]\<close>.\<close>

fun index0 :: "json \<Rightarrow> exn + json" where
  "index0 (JList []) = Inl (IndexError ''list index out of range'')"
| "index0 (JList (x # xs)) = Inr x"
| "index0 (JStr []) = Inl (IndexError ''string index out of range'')"
| "index0 (JStr (c # cs)) = Inr (JStr [c])"
| "index0 (JObj kvs) = Inl (KeyError ''0'')"
| "index0 v = Inl (not_subscriptable v)"

text \<open>\<^verbatim>\<open>key in v\<close> for a string \<open>key\<close>.\<close>

fun key_in :: "string \<Rightarrow> json \<Rightarrow> exn + bool" where
  "key_in key (JObj kvs) = Inr (key \<in> set (keys kvs))"
| "key_in key (JList xs) = Inr (JStr key \<in> set xs)"
| "key_in key (JStr s) = Inr (str_contains key s)"
| "key_in key v =
     Inl (TypeError (''argument of type '' @ quoted (type_name v) @ '' is not iterable''))"

text \<open>\<^verbatim>\<open>v[key]\<close> for a string \<open>key\<close>.\<close>

fun getitem :: "json \<Rightarrow> string \<Rightarrow> exn + json" where
  "getitem (JObj kvs) key =
     (case map_of kvs key of
        Some v \<Rightarrow> Inr v
      | None \<Rightarrow> Inl (KeyError (quoted key)))"
| "getitem (JList xs) key =
     Inl (TypeError ''list indices must be integers or slices, not str'')"
| "getitem (JStr s) key =
     Inl (TypeError (''string indices must be integers, not '' @ quoted ''str''))"
| "getitem v key = Inl (not_subscriptable v)"

text \<open>
  \<^verbatim>\<open>str(v)\<close> inside an f-string. Scalars are rendered as the interpreter does; the
  rendering of a list or a dict (their \<^verbatim>\<open>repr\<close>) is a parameter.
\<close>

fun py_str :: "(json \<Rightarrow> string) \<Rightarrow> json \<Rightarrow> string" where
  "py_str rp JNull = ''None''"
| "py_str rp (JBool b) = (if b then ''True'' else ''False'')"
| "py_str rp (JInt i) = str_int i"
| "py_str rp (JStr s) = s"
| "py_str rp v = rp v"

subsection \<open>The HTTP client\<close>

text \<open>
  A request as handed to the client: the client attribute selected by
  \<^verbatim>\<open>method.lower()\<close>, the URL, the merged headers and the keyword arguments
  (\<^verbatim>\<open>params=\<close> or \<^verbatim>\<open>json=\<close>).
\<close>

record request =
  req_attr :: string
  req_url :: string
  req_headers :: "(string \<times> string) list"
  req_kwargs :: "(string \<times> json) list"

text \<open>
  A response as the client exposes it: status, the \<^verbatim>\<open>content-type\<close> header if any, the
  body bytes, the body as text, and what \<^verbatim>\<open>response.json()\<close> gives (\<open>Inl\<close>: the
  description of the decoding error it raises).
\<close>

record response =
  resp_status :: int
  resp_content_type :: "string option"
  resp_content :: "byte list"
  resp_text :: string
  resp_json :: "string + json"

text \<open>
  What awaiting the client call does: it raises (the string is the exception's
  description) or it returns a response.
\<close>

datatype outcome = Raises string | Responds response

text \<open>
  The surroundings of one invocation: the process environment, the remote side (its answer
  may depend on the requests sent before) and the interpreter's rendering of lists and dicts.
\<close>

record runtime =
  environ :: "string \<Rightarrow> string option"
  transport :: "request list \<Rightarrow> request \<Rightarrow> outcome"
  render :: "json \<Rightarrow> string"

text \<open>
  The trace of an invocation: every call of the executor (method and URL, in order) and
  every request the executor handed to the client.
\<close>

record net =
  executor_calls :: "(string \<times> string) list"
  sent :: "request list"

definition DOCS_API_BASE :: string where
  "DOCS_API_BASE = ''https://docs.googleapis.com/v1''"

definition DRIVE_API_BASE :: string where
  "DRIVE_API_BASE = ''https://www.googleapis.com/drive/v3''"

subsection \<open>Credential lookup\<close>

definition missing_token_message :: string where
  "missing_token_message =
     ''Missing GOOGLE_ACCESS_TOKEN environment variable. '' @
     ''Please set it in your .env file or environment.''"

text \<open>\<^verbatim>\<open>get_access_token\<close>: \<^verbatim>\<open>not token\<close> holds for \<^verbatim>\<open>None\<close> and for the empty string.\<close>

definition get_access_token :: "(string \<Rightarrow> string option) \<Rightarrow> exn + string" where
  "get_access_token env =
     (let token = env ''GOOGLE_ACCESS_TOKEN'' in
      if \<not> (case token of None \<Rightarrow> False | Some t \<Rightarrow> t \<noteq> [])
      then Inl (ValueError missing_token_message)
      else (case token of Some t \<Rightarrow> Inr t | None \<Rightarrow> Inl (ValueError missing_token_message)))"

subsection \<open>The executor\<close>

text \<open>\<^verbatim>\<open>d.update(other)\<close>: a present key keeps its place, a new key goes to the end.\<close>

fun dict_set :: "'k \<Rightarrow> 'v \<Rightarrow> ('k \<times> 'v) list \<Rightarrow> ('k \<times> 'v) list" where
  "dict_set k v [] = [(k, v)]"
| "dict_set k v ((k', v') # kvs) = (if k = k' then (k, v) # kvs else (k', v') # dict_set k v kvs)"

definition dict_update :: "('k \<times> 'v) list \<Rightarrow> ('k \<times> 'v) list \<Rightarrow> ('k \<times> 'v) list" where
  "dict_update d other = fold (\<lambda>(k, v). dict_set k v) other d"

definition is_success :: "response \<Rightarrow> bool" where
  "is_success r = (200 \<le> resp_status r \<and> resp_status r \<le> 299)"

text \<open>What the \<^verbatim>\<open>try\<close> block of the executor raises.\<close>

datatype fault = HTTPStatusError response | OtherError string

text \<open>
  The \<^verbatim>\<open>try\<close> block: the client call, \<^verbatim>\<open>raise_for_status\<close> (it raises on every status
  outside 200..299), then bytes for an \<^verbatim>\<open>application/\<close> content type and decoded JSON
  otherwise.
\<close>

definition attempt :: "outcome \<Rightarrow> fault + payload" where
  "attempt out =
     (case out of
        Raises d \<Rightarrow> Inl (OtherError d)
      | Responds r \<Rightarrow>
          if \<not> is_success r then Inl (HTTPStatusError r)
          else if prefix ''application/''
                    (case resp_content_type r of None \<Rightarrow> [] | Some ct \<Rightarrow> ct)
          then Inr (RawBytes (resp_content r))
          else (case resp_json r of
                  Inl d \<Rightarrow> Inl (OtherError d)
                | Inr v \<Rightarrow> Inr (Decoded v)))"

text \<open>The two \<^verbatim>\<open>except\<close> clauses.\<close>

fun reraise :: "fault \<Rightarrow> exn" where
  "reraise (HTTPStatusError r) =
     Exception (''Google API error '' @ str_int (resp_status r) @ '': '' @ resp_text r)"
| "reraise (OtherError d) = Exception (''Request failed: '' @ d)"

text \<open>The default headers, overlaid by the caller's when it gave any.\<close>

definition merged_headers :: "string \<Rightarrow> (string \<times> string) list option \<Rightarrow> (string \<times> string) list" where
  "merged_headers token headers =
     (let default_headers = [(''Authorization'', ''Bearer '' @ token),
                             (''Content-Type'', ''application/json'')]
      in case headers of
           None \<Rightarrow> default_headers
         | Some h \<Rightarrow> if h \<noteq> [] then dict_update default_headers h else default_headers)"

definition build_request ::
  "string \<Rightarrow> string \<Rightarrow> string \<Rightarrow> (string \<times> string) list option \<Rightarrow> (string \<times> json) list \<Rightarrow>
   request" where
  "build_request token method url headers kwargs =
     \<lparr>req_attr = py_lower method, req_url = url,
      req_headers = merged_headers token headers, req_kwargs = kwargs\<rparr>"

text \<open>
  \<^verbatim>\<open>make_api_request\<close>. The credential lookup is outside the \<^verbatim>\<open>try\<close> block: its
  \<^verbatim>\<open>ValueError\<close> leaves the executor as it is, and nothing is sent.
\<close>

definition make_api_request ::
  "runtime \<Rightarrow> net \<Rightarrow> string \<Rightarrow> string \<Rightarrow> (string \<times> string) list option \<Rightarrow>
   (string \<times> json) list \<Rightarrow> (exn + payload) \<times> net" where
  "make_api_request rt s method url headers kwargs =
     (let s1 = s\<lparr>executor_calls := executor_calls s @ [(method, url)]\<rparr> in
      case get_access_token (environ rt) of
        Inl e \<Rightarrow> (Inl e, s1)
      | Inr token \<Rightarrow>
          let rq = build_request token method url headers kwargs;
              s2 = s1\<lparr>sent := sent s1 @ [rq]\<rparr>
          in (case attempt (transport rt (sent s1) rq) of
                Inl f \<Rightarrow> (Inl (reraise f), s2)
              | Inr p \<Rightarrow> (Inr p, s2)))"

section \<open>The tool adapters\<close>

text \<open>
  Each adapter is a \<^verbatim>\<open>try\<close> body and an \<^verbatim>\<open>except Exception\<close> handler. The body is a
  function whose result is the exception it raises (\<open>Inl\<close>) or the dict it returns
  (\<open>Inr\<close>); the handler turns the exception into the dict of the error case.
\<close>

definition bind_exn :: "exn + 'a \<Rightarrow> ('a \<Rightarrow> exn + 'b) \<Rightarrow> exn + 'b" where
  "bind_exn r f = (case r of Inl e \<Rightarrow> Inl e | Inr x \<Rightarrow> f x)"

text \<open>Continue with the executor's result, unless the executor raised.\<close>

definition on_result ::
  "(exn + 'a) \<times> net \<Rightarrow> ('a \<Rightarrow> exn + 'b) \<Rightarrow> (exn + 'b) \<times> net" where
  "on_result r f = (case r of (Inl e, s') \<Rightarrow> (Inl e, s') | (Inr x, s') \<Rightarrow> (f x, s'))"

text \<open>\<^verbatim>\<open>except Exception as e: return handler(e)\<close>.\<close>

definition except_exception ::
  "(exn + envelope) \<times> net \<Rightarrow> (exn \<Rightarrow> envelope) \<Rightarrow> envelope \<times> net" where
  "except_exception r handler =
     (case r of (Inl e, s') \<Rightarrow> (handler e, s') | (Inr env, s') \<Rightarrow> (env, s'))"

definition str_bool :: "bool \<Rightarrow> string" where
  "str_bool b = (if b then ''True'' else ''False'')"

definition batch_update_url :: "string \<Rightarrow> string" where
  "batch_update_url document_id = DOCS_API_BASE @ ''/documents/'' @ document_id @ '':batchUpdate''"

subsection \<open>\<^verbatim>\<open>list_documents\<close>\<close>

definition list_documents_params :: "int \<Rightarrow> json" where
  "list_documents_params max_results =
     JObj [(''q'', JStr (''mimeType='' @ quoted ''application/vnd.google-apps.document'')),
           (''pageSize'', JInt (min max_results 1000)),
           (''fields'', JStr (''files(id,name,createdTime,modifiedTime,webViewLink,'' @
                              ''thumbnailLink,owners)''))]"

definition list_documents_reshape :: "payload \<Rightarrow> exn + envelope" where
  "list_documents_reshape result =
     bind_exn (result_get result ''files'' (JList [])) (\<lambda>files.
     bind_exn (py_len files) (\<lambda>n.
       Inr [(''files'', files),
            (''count'', JInt (int n)),
            (''message'', JStr (''Successfully listed '' @ str_nat n @ '' documents''))]))"

definition list_documents_try :: "runtime \<Rightarrow> net \<Rightarrow> int \<Rightarrow> (exn + envelope) \<times> net" where
  "list_documents_try rt s max_results =
     on_result
       (make_api_request rt s ''GET'' (DRIVE_API_BASE @ ''/files'') None
          [(''params'', list_documents_params max_results)])
       list_documents_reshape"

definition list_documents_error :: "exn \<Rightarrow> envelope" where
  "list_documents_error e =
     [(''error'', JStr (str_exn e)),
      (''message'', JStr ''Failed to list documents'')]"

definition list_documents :: "runtime \<Rightarrow> net \<Rightarrow> int \<Rightarrow> envelope \<times> net" where
  "list_documents rt s max_results =
     except_exception (list_documents_try rt s max_results) list_documents_error"

subsection \<open>\<^verbatim>\<open>get_document\<close>\<close>

definition get_document_reshape :: "(json \<Rightarrow> string) \<Rightarrow> payload \<Rightarrow> exn + envelope" where
  "get_document_reshape rp result =
     bind_exn (result_get result ''documentId'' JNull) (\<lambda>doc_id.
     bind_exn (result_get result ''title'' JNull) (\<lambda>title.
     bind_exn (result_get result ''body'' JNull) (\<lambda>body.
     bind_exn (result_get result ''title'' JNull) (\<lambda>title'.
       Inr [(''documentId'', doc_id),
            (''title'', title),
            (''body'', body),
            (''message'', JStr (''Successfully retrieved document: '' @ py_str rp title'))]))))"

definition get_document_try :: "runtime \<Rightarrow> net \<Rightarrow> string \<Rightarrow> (exn + envelope) \<times> net" where
  "get_document_try rt s document_id =
     on_result
       (make_api_request rt s ''GET'' (DOCS_API_BASE @ ''/documents/'' @ document_id) None [])
       (get_document_reshape (render rt))"

definition get_document_error :: "string \<Rightarrow> exn \<Rightarrow> envelope" where
  "get_document_error document_id e =
     [(''error'', JStr (str_exn e)),
      (''document_id'', JStr document_id),
      (''message'', JStr (''Failed to retrieve document '' @ document_id))]"

definition get_document :: "runtime \<Rightarrow> net \<Rightarrow> string \<Rightarrow> envelope \<times> net" where
  "get_document rt s document_id =
     except_exception (get_document_try rt s document_id) (get_document_error document_id)"

subsection \<open>\<^verbatim>\<open>create_document\<close>\<close>

definition drive_file_url :: "(json \<Rightarrow> string) \<Rightarrow> json \<Rightarrow> string" where
  "drive_file_url rp doc_id = DRIVE_API_BASE @ ''/files/'' @ py_str rp doc_id"

definition create_document_success ::
  "string \<Rightarrow> json \<Rightarrow> payload \<Rightarrow> payload \<Rightarrow> exn + envelope" where
  "create_document_success title doc_id result drive_info =
     bind_exn (result_get result ''title'' JNull) (\<lambda>title'.
     bind_exn (result_get drive_info ''webViewLink'' JNull) (\<lambda>link.
       Inr [(''documentId'', doc_id),
            (''title'', title'),
            (''webViewLink'', link),
            (''message'', JStr (''Successfully created document: '' @ title))]))"

definition create_document_try :: "runtime \<Rightarrow> net \<Rightarrow> string \<Rightarrow> (exn + envelope) \<times> net" where
  "create_document_try rt s title =
     (let document_data = JObj [(''title'', JStr title)] in
      case make_api_request rt s ''POST'' (DOCS_API_BASE @ ''/documents'') None
             [(''json'', document_data)] of
        (Inl e, s1) \<Rightarrow> (Inl e, s1)
      | (Inr result, s1) \<Rightarrow>
          (case result_get result ''documentId'' JNull of
             Inl e \<Rightarrow> (Inl e, s1)
           | Inr doc_id \<Rightarrow>
               on_result
                 (make_api_request rt s1 ''GET'' (drive_file_url (render rt) doc_id) None
                    [(''params'', JObj [(''fields'', JStr ''webViewLink'')])])
                 (create_document_success title doc_id result)))"

definition create_document_error :: "string \<Rightarrow> exn \<Rightarrow> envelope" where
  "create_document_error title e =
     [(''error'', JStr (str_exn e)),
      (''title'', JStr title),
      (''message'', JStr (''Failed to create document '' @ quoted title))]"

definition create_document :: "runtime \<Rightarrow> net \<Rightarrow> string \<Rightarrow> envelope \<times> net" where
  "create_document rt s title =
     except_exception (create_document_try rt s title) (create_document_error title)"

subsection \<open>\<^verbatim>\<open>insert_text\<close>\<close>

definition insert_text_requests :: "string \<Rightarrow> int \<Rightarrow> json" where
  "insert_text_requests txt index =
     JObj [(''requests'',
            JList [JObj [(''insertText'',
                          JObj [(''location'', JObj [(''index'', JInt index)]),
                                (''text'', JStr txt)])]])]"

definition insert_text_reshape :: "string \<Rightarrow> int \<Rightarrow> payload \<Rightarrow> exn + envelope" where
  "insert_text_reshape document_id index result =
     bind_exn (result_get result ''replies'' (JList [])) (\<lambda>replies.
       Inr [(''documentId'', JStr document_id),
            (''message'', JStr (''Successfully inserted text at position '' @ str_int index)),
            (''replies'', replies)])"

definition insert_text_try ::
  "runtime \<Rightarrow> net \<Rightarrow> string \<Rightarrow> string \<Rightarrow> int \<Rightarrow> (exn + envelope) \<times> net" where
  "insert_text_try rt s document_id txt index =
     on_result
       (make_api_request rt s ''POST'' (batch_update_url document_id) None
          [(''json'', insert_text_requests txt index)])
       (insert_text_reshape document_id index)"

definition insert_text_error :: "string \<Rightarrow> exn \<Rightarrow> envelope" where
  "insert_text_error document_id e =
     [(''error'', JStr (str_exn e)),
      (''document_id'', JStr document_id),
      (''message'', JStr (''Failed to insert text into document '' @ document_id))]"

definition insert_text :: "runtime \<Rightarrow> net \<Rightarrow> string \<Rightarrow> string \<Rightarrow> int \<Rightarrow> envelope \<times> net" where
  "insert_text rt s document_id txt index =
     except_exception (insert_text_try rt s document_id txt index)
       (insert_text_error document_id)"

subsection \<open>\<^verbatim>\<open>replace_text\<close>\<close>

definition replace_text_requests :: "string \<Rightarrow> string \<Rightarrow> json" where
  "replace_text_requests old_text new_text =
     JObj [(''requests'',
            JList [JObj [(''replaceAllText'',
                          JObj [(''containsText'',
                                 JObj [(''text'', JStr old_text),
                                       (''matchCase'', JBool False)]),
                                (''replaceText'', JStr new_text)])]])]"

text \<open>
  The occurrence count: \<^verbatim>\<open>0\<close> unless \<^verbatim>\<open>replies\<close> is true and
  \<^verbatim>\<open>"replaceAllText" in replies[0]\<close>; then
  \<^verbatim>\<open>replies[0]["replaceAllText"].get("occurrencesChanged", 0)\<close>.
\<close>

definition replace_text_occurrences :: "payload \<Rightarrow> exn + json" where
  "replace_text_occurrences result =
     bind_exn (result_get result ''replies'' (JList [])) (\<lambda>replies.
       if \<not> truthy replies then Inr (JInt 0)
       else
         bind_exn (index0 replies) (\<lambda>first.
         bind_exn (key_in ''replaceAllText'' first) (\<lambda>present.
           if \<not> present then Inr (JInt 0)
           else
             bind_exn (index0 replies) (\<lambda>first'.
             bind_exn (getitem first' ''replaceAllText'') (\<lambda>inner.
               json_get inner ''occurrencesChanged'' (JInt 0))))))"

definition replace_text_reshape ::
  "(json \<Rightarrow> string) \<Rightarrow> string \<Rightarrow> string \<Rightarrow> string \<Rightarrow> payload \<Rightarrow> exn + envelope" where
  "replace_text_reshape rp document_id old_text new_text result =
     bind_exn (replace_text_occurrences result) (\<lambda>occurrences.
       Inr [(''documentId'', JStr document_id),
            (''message'', JStr (''Successfully replaced '' @ py_str rp occurrences @
                                '' occurrence(s) of '' @ quoted old_text @ '' with '' @
                                quoted new_text)),
            (''occurrences_changed'', occurrences)])"

definition replace_text_try ::
  "runtime \<Rightarrow> net \<Rightarrow> string \<Rightarrow> string \<Rightarrow> string \<Rightarrow> (exn + envelope) \<times> net" where
  "replace_text_try rt s document_id old_text new_text =
     on_result
       (make_api_request rt s ''POST'' (batch_update_url document_id) None
          [(''json'', replace_text_requests old_text new_text)])
       (replace_text_reshape (render rt) document_id old_text new_text)"

definition replace_text_error :: "string \<Rightarrow> exn \<Rightarrow> envelope" where
  "replace_text_error document_id e =
     [(''error'', JStr (str_exn e)),
      (''document_id'', JStr document_id),
      (''message'', JStr (''Failed to replace text in document '' @ document_id))]"

definition replace_text ::
  "runtime \<Rightarrow> net \<Rightarrow> string \<Rightarrow> string \<Rightarrow> string \<Rightarrow> envelope \<times> net" where
  "replace_text rt s document_id old_text new_text =
     except_exception (replace_text_try rt s document_id old_text new_text)
       (replace_text_error document_id)"

subsection \<open>\<^verbatim>\<open>format_text\<close>\<close>

text \<open>
  \<^verbatim>\<open>text_style\<close> and \<^verbatim>\<open>formatting_applied\<close>, filled in the order bold, italic,
  underline; an option that is \<^verbatim>\<open>None\<close> adds nothing.
\<close>

definition style_entry :: "string \<Rightarrow> bool option \<Rightarrow> (string \<times> json) list" where
  "style_entry name opt = (case opt of None \<Rightarrow> [] | Some b \<Rightarrow> [(name, JBool b)])"

definition applied_entry :: "string \<Rightarrow> bool option \<Rightarrow> string list" where
  "applied_entry name opt = (case opt of None \<Rightarrow> [] | Some b \<Rightarrow> [name @ ''='' @ str_bool b])"

definition text_style :: "bool option \<Rightarrow> bool option \<Rightarrow> bool option \<Rightarrow> (string \<times> json) list" where
  "text_style bold italic underline =
     style_entry ''bold'' bold @ style_entry ''italic'' italic @
     style_entry ''underline'' underline"

definition formatting_applied :: "bool option \<Rightarrow> bool option \<Rightarrow> bool option \<Rightarrow> string list" where
  "formatting_applied bold italic underline =
     applied_entry ''bold'' bold @ applied_entry ''italic'' italic @
     applied_entry ''underline'' underline"

definition format_text_requests :: "int \<Rightarrow> int \<Rightarrow> (string \<times> json) list \<Rightarrow> json" where
  "format_text_requests start_index end_index style =
     JObj [(''requests'',
            JList [JObj [(''updateTextStyle'',
                          JObj [(''range'', JObj [(''startIndex'', JInt start_index),
                                                  (''endIndex'', JInt end_index)]),
                                (''textStyle'', JObj style),
                                (''fields'', JStr (py_join '','' (keys style)))])]])]"

definition format_text_no_options :: "string \<Rightarrow> envelope" where
  "format_text_no_options document_id =
     [(''error'', JStr ''No formatting options provided''),
      (''document_id'', JStr document_id),
      (''message'', JStr (''At least one formatting option (bold, italic, underline) '' @
                          ''must be specified''))]"

definition format_text_try ::
  "runtime \<Rightarrow> net \<Rightarrow> string \<Rightarrow> int \<Rightarrow> int \<Rightarrow> bool option \<Rightarrow> bool option \<Rightarrow> bool option \<Rightarrow>
   (exn + envelope) \<times> net" where
  "format_text_try rt s document_id start_index end_index bold italic underline =
     (let style = text_style bold italic underline;
          applied = formatting_applied bold italic underline
      in if style = [] then (Inr (format_text_no_options document_id), s)
         else
           on_result
             (make_api_request rt s ''POST'' (batch_update_url document_id) None
                [(''json'', format_text_requests start_index end_index style)])
             (\<lambda>result.
                Inr [(''documentId'', JStr document_id),
                     (''message'', JStr (''Successfully formatted text from index '' @
                                         str_int start_index @ '' to '' @ str_int end_index)),
                     (''formatting_applied'', JList (map JStr applied))]))"

definition format_text_error :: "string \<Rightarrow> exn \<Rightarrow> envelope" where
  "format_text_error document_id e =
     [(''error'', JStr (str_exn e)),
      (''document_id'', JStr document_id),
      (''message'', JStr (''Failed to format text in document '' @ document_id))]"

definition format_text ::
  "runtime \<Rightarrow> net \<Rightarrow> string \<Rightarrow> int \<Rightarrow> int \<Rightarrow> bool option \<Rightarrow> bool option \<Rightarrow> bool option \<Rightarrow>
   envelope \<times> net" where
  "format_text rt s document_id start_index end_index bold italic underline =
     except_exception
       (format_text_try rt s document_id start_index end_index bold italic underline)
       (format_text_error document_id)"

subsection \<open>\<^verbatim>\<open>insert_image\<close>\<close>

definition insert_image_requests :: "string \<Rightarrow> int \<Rightarrow> json" where
  "insert_image_requests image_url index =
     JObj [(''requests'',
            JList [JObj [(''insertInlineImage'',
                          JObj [(''location'', JObj [(''index'', JInt index)]),
                                (''uri'', JStr image_url)])]])]"

definition insert_image_try ::
  "runtime \<Rightarrow> net \<Rightarrow> string \<Rightarrow> string \<Rightarrow> int \<Rightarrow> (exn + envelope) \<times> net" where
  "insert_image_try rt s document_id image_url index =
     on_result
       (make_api_request rt s ''POST'' (batch_update_url document_id) None
          [(''json'', insert_image_requests image_url index)])
       (\<lambda>result.
          Inr [(''documentId'', JStr document_id),
               (''message'', JStr (''Successfully inserted image at position '' @
                                   str_int index)),
               (''image_url'', JStr image_url)])"

definition insert_image_error :: "string \<Rightarrow> exn \<Rightarrow> envelope" where
  "insert_image_error document_id e =
     [(''error'', JStr (str_exn e)),
      (''document_id'', JStr document_id),
      (''message'', JStr (''Failed to insert image into document '' @ document_id))]"

definition insert_image ::
  "runtime \<Rightarrow> net \<Rightarrow> string \<Rightarrow> string \<Rightarrow> int \<Rightarrow> envelope \<times> net" where
  "insert_image rt s document_id image_url index =
     except_exception (insert_image_try rt s document_id image_url index)
       (insert_image_error document_id)"

subsection \<open>\<^verbatim>\<open>export_document\<close>\<close>

definition mime_types :: "(string \<times> string) list" where
  "mime_types =
     [(''pdf'', ''application/pdf''),
      (''docx'', ''application/vnd.openxmlformats-officedocument.wordprocessingml.document''),
      (''odt'', ''application/vnd.oasis.opendocument.text''),
      (''rtf'', ''application/rtf''),
      (''txt'', ''text/plain''),
      (''html'', ''text/html''),
      (''epub'', ''application/epub+zip'')]"

definition export_unsupported :: "string \<Rightarrow> envelope" where
  "export_unsupported export_format =
     [(''error'', JStr (''Unsupported export format: '' @ export_format)),
      (''supported_formats'', JList (map JStr (keys mime_types))),
      (''message'', JStr (''Format '' @ quoted export_format @ '' is not supported''))]"

text \<open>\<^verbatim>\<open>len(content) if isinstance(content, bytes) else 0\<close>.\<close>

fun content_length :: "payload \<Rightarrow> int" where
  "content_length (RawBytes b) = int (length b)"
| "content_length (Decoded v) = 0"

definition export_document_success :: "string \<Rightarrow> string \<Rightarrow> payload \<Rightarrow> envelope" where
  "export_document_success document_id export_format content =
     [(''documentId'', JStr document_id),
      (''format'', JStr export_format),
      (''content_length'', JInt (content_length content)),
      (''message'', JStr (''Successfully exported document as '' @ export_format @ '' ('' @
                          str_int (content_length content) @ '' bytes)'')),
      (''download_info'', JStr ''Export completed. Content available via Google Drive API.'')]"

definition export_url :: "string \<Rightarrow> string" where
  "export_url document_id = DRIVE_API_BASE @ ''/files/'' @ document_id @ ''/export''"

text \<open>
  The membership test \<^verbatim>\<open>export_format not in mime_types\<close> and the lookup
  \<^verbatim>\<open>mime_types[export_format]\<close> are the two branches of one \<open>map_of\<close>.
\<close>

definition export_document_try ::
  "runtime \<Rightarrow> net \<Rightarrow> string \<Rightarrow> string \<Rightarrow> (exn + envelope) \<times> net" where
  "export_document_try rt s document_id export_format =
     (case map_of mime_types export_format of
        None \<Rightarrow> (Inr (export_unsupported export_format), s)
      | Some mime_type \<Rightarrow>
          on_result
            (make_api_request rt s ''GET'' (export_url document_id) None
               [(''params'', JObj [(''mimeType'', JStr mime_type)])])
            (\<lambda>content. Inr (export_document_success document_id export_format content)))"

definition export_document_error :: "string \<Rightarrow> exn \<Rightarrow> envelope" where
  "export_document_error document_id e =
     [(''error'', JStr (str_exn e)),
      (''document_id'', JStr document_id),
      (''message'', JStr (''Failed to export document '' @ document_id))]"

definition export_document :: "runtime \<Rightarrow> net \<Rightarrow> string \<Rightarrow> string \<Rightarrow> envelope \<times> net" where
  "export_document rt s document_id export_format =
     except_exception (export_document_try rt s document_id export_format)
       (export_document_error document_id)"

subsection \<open>\<^verbatim>\<open>delete_document\<close>\<close>

definition delete_document_try :: "runtime \<Rightarrow> net \<Rightarrow> string \<Rightarrow> (exn + envelope) \<times> net" where
  "delete_document_try rt s document_id =
     on_result
       (make_api_request rt s ''DELETE'' (DRIVE_API_BASE @ ''/files/'' @ document_id) None [])
       (\<lambda>result.
          Inr [(''documentId'', JStr document_id),
               (''message'', JStr (''Successfully deleted document '' @ document_id))])"

definition delete_document_error :: "string \<Rightarrow> exn \<Rightarrow> envelope" where
  "delete_document_error document_id e =
     [(''error'', JStr (str_exn e)),
      (''document_id'', JStr document_id),
      (''message'', JStr (''Failed to delete document '' @ document_id))]"

definition delete_document :: "runtime \<Rightarrow> net \<Rightarrow> string \<Rightarrow> envelope \<times> net" where
  "delete_document rt s document_id =
     except_exception (delete_document_try rt s document_id) (delete_document_error document_id)"

subsection \<open>The tool surface\<close>

text \<open>One invocation of a registered tool, with its arguments.\<close>

datatype tool_call =
    ListDocuments int
  | GetDocument string
  | CreateDocument string
  | InsertText string string int
  | ReplaceText string string string
  | FormatText string int int "bool option" "bool option" "bool option"
  | InsertImage string string int
  | ExportDocument string string
  | DeleteDocument string

fun invoke :: "runtime \<Rightarrow> net \<Rightarrow> tool_call \<Rightarrow> envelope \<times> net" where
  "invoke rt s (ListDocuments n) = list_documents rt s n"
| "invoke rt s (GetDocument d) = get_document rt s d"
| "invoke rt s (CreateDocument t) = create_document rt s t"
| "invoke rt s (InsertText d x i) = insert_text rt s d x i"
| "invoke rt s (ReplaceText d x y) = replace_text rt s d x y"
| "invoke rt s (FormatText d i j b it u) = format_text rt s d i j b it u"
| "invoke rt s (InsertImage d u i) = insert_image rt s d u i"
| "invoke rt s (ExportDocument d f) = export_document rt s d f"
| "invoke rt s (DeleteDocument d) = delete_document rt s d"

text \<open>The keys of the dict each tool returns when nothing failed, \<^verbatim>\<open>message\<close> apart.\<close>

fun success_fields :: "tool_call \<Rightarrow> string list" where
  "success_fields (ListDocuments n) = [''files'', ''count'']"
| "success_fields (GetDocument d) = [''documentId'', ''title'', ''body'']"
| "success_fields (CreateDocument t) = [''documentId'', ''title'', ''webViewLink'']"
| "success_fields (InsertText d x i) = [''documentId'', ''replies'']"
| "success_fields (ReplaceText d x y) = [''documentId'', ''occurrences_changed'']"
| "success_fields (FormatText d i j b it u) = [''documentId'', ''formatting_applied'']"
| "success_fields (InsertImage d u i) = [''documentId'', ''image_url'']"
| "success_fields (ExportDocument d f) =
     [''documentId'', ''format'', ''content_length'', ''download_info'']"
| "success_fields (DeleteDocument d) = [''documentId'']"

text \<open>The \<^verbatim>\<open>try\<close> body and the \<^verbatim>\<open>except\<close> handler of each tool.\<close>

fun tool_body :: "runtime \<Rightarrow> net \<Rightarrow> tool_call \<Rightarrow> (exn + envelope) \<times> net" where
  "tool_body rt s (ListDocuments n) = list_documents_try rt s n"
| "tool_body rt s (GetDocument d) = get_document_try rt s d"
| "tool_body rt s (CreateDocument t) = create_document_try rt s t"
| "tool_body rt s (InsertText d x i) = insert_text_try rt s d x i"
| "tool_body rt s (ReplaceText d x y) = replace_text_try rt s d x y"
| "tool_body rt s (FormatText d i j b it u) = format_text_try rt s d i j b it u"
| "tool_body rt s (InsertImage d u i) = insert_image_try rt s d u i"
| "tool_body rt s (ExportDocument d f) = export_document_try rt s d f"
| "tool_body rt s (DeleteDocument d) = delete_document_try rt s d"

fun tool_handler :: "tool_call \<Rightarrow> exn \<Rightarrow> envelope" where
  "tool_handler (ListDocuments n) = list_documents_error"
| "tool_handler (GetDocument d) = get_document_error d"
| "tool_handler (CreateDocument t) = create_document_error t"
| "tool_handler (InsertText d x i) = insert_text_error d"
| "tool_handler (ReplaceText d x y) = replace_text_error d"
| "tool_handler (FormatText d i j b it u) = format_text_error d"
| "tool_handler (InsertImage d u i) = insert_image_error d"
| "tool_handler (ExportDocument d f) = export_document_error d"
| "tool_handler (DeleteDocument d) = delete_document_error d"

subsection \<open>Shapes of the returned dict\<close>

definition has_field :: "envelope \<Rightarrow> string \<Rightarrow> bool" where
  "has_field env k = (k \<in> set (keys env))"

text \<open>
  The dict has a \<^verbatim>\<open>message\<close>, and it has either an \<^verbatim>\<open>error\<close> or all the success fields
  \<open>fs\<close>, not both.
\<close>

definition well_shaped :: "string list \<Rightarrow> envelope \<Rightarrow> bool" where
  "well_shaped fs env =
     (has_field env ''message'' \<and>
      (has_field env ''error'' \<noteq> list_all (has_field env) fs))"

subsection \<open>Sample surroundings\<close>

text \<open>Concrete surroundings, used where a property is evaluated at an input.\<close>

definition sample_environ :: "string \<Rightarrow> string option" where
  "sample_environ = [''GOOGLE_ACCESS_TOKEN'' \<mapsto> ''ya29.a0'']"

text \<open>A remote side that gives the same outcome to every request.\<close>

definition answering :: "outcome \<Rightarrow> runtime" where
  "answering out =
     \<lparr>environ = sample_environ, transport = (\<lambda>history rq. out), render = (\<lambda>v. ''[...]'')\<rparr>"

text \<open>A process started without the credential.\<close>

definition no_credential :: runtime where
  "no_credential =
     \<lparr>environ = (\<lambda>k. None), transport = (\<lambda>history rq. Raises ''unreachable''),
      render = (\<lambda>v. ''[...]'')\<rparr>"

definition idle :: net where
  "idle = \<lparr>executor_calls = [], sent = []\<rparr>"

definition ascii_bytes :: "string \<Rightarrow> byte list" where
  "ascii_bytes s = map (\<lambda>c. of_nat (of_char c)) s"

definition not_found :: response where
  "not_found =
     \<lparr>resp_status = 404, resp_content_type = Some ''text/plain'',
      resp_content = ascii_bytes ''Not Found'', resp_text = ''Not Found'',
      resp_json = Inl ''Expecting value: line 1 column 1 (char 0)''\<rparr>"

text \<open>A 200 response whose body \<open>body\<close> decodes to \<open>v\<close>.\<close>

definition json_reply :: "string \<Rightarrow> json \<Rightarrow> response" where
  "json_reply body v =
     \<lparr>resp_status = 200, resp_content_type = Some ''text/json'',
      resp_content = ascii_bytes body, resp_text = body, resp_json = Inr v\<rparr>"

text \<open>A 200 response that carries an export of the given bytes.\<close>

definition pdf_reply :: "byte list \<Rightarrow> response" where
  "pdf_reply b =
     \<lparr>resp_status = 200, resp_content_type = Some ''application/pdf'',
      resp_content = b, resp_text = [],
      resp_json = Inl ''Expecting value: line 1 column 1 (char 0)''\<rparr>"

text \<open>A 200 response of plain text that is not JSON.\<close>

definition text_reply :: "string \<Rightarrow> response" where
  "text_reply body =
     \<lparr>resp_status = 200, resp_content_type = Some ''text/plain'',
      resp_content = ascii_bytes body, resp_text = body,
      resp_json = Inl ''Expecting value: line 1 column 1 (char 0)''\<rparr>"

section \<open>Properties\<close>

lemma get_access_token_cases:
  "get_access_token env =
     (case env ''GOOGLE_ACCESS_TOKEN'' of
        None \<Rightarrow> Inl (ValueError missing_token_message)
      | Some t \<Rightarrow> if t = [] then Inl (ValueError missing_token_message) else Inr t)"
  by (simp add: get_access_token_def Let_def split: option.splits)

lemma executor_sends:
  "get_access_token (environ rt) = Inr token \<Longrightarrow>
   make_api_request rt s method url headers kwargs =
     (case attempt (transport rt (sent s) (build_request token method url headers kwargs)) of
        Inl f \<Rightarrow> Inl (reraise f) | Inr p \<Rightarrow> Inr p,
      s\<lparr>executor_calls := executor_calls s @ [(method, url)],
        sent := sent s @ [build_request token method url headers kwargs]\<rparr>)"
  by (simp add: make_api_request_def Let_def split: sum.splits)

lemma executor_without_token:
  "get_access_token (environ rt) = Inl e \<Longrightarrow>
   make_api_request rt s method url headers kwargs =
     (Inl e, s\<lparr>executor_calls := executor_calls s @ [(method, url)]\<rparr>)"
  by (simp add: make_api_request_def Let_def)

lemma executor_call_logged:
  "executor_calls (snd (make_api_request rt s method url headers kwargs)) =
     executor_calls s @ [(method, url)]"
  by (simp add: make_api_request_def Let_def split: sum.splits)

lemma sample_token: "get_access_token sample_environ = Inr ''ya29.a0''"
  by (simp add: get_access_token_cases sample_environ_def)

lemma no_token: "get_access_token (\<lambda>k. None) = Inl (ValueError missing_token_message)"
  by (simp add: get_access_token_cases)

lemma answering_token: "get_access_token (environ (answering out)) = Inr ''ya29.a0''"
  by (simp add: answering_def sample_token)

lemma str_int_404: "str_int 404 = ''404''"
  by code_simp

lemma fst_except_on_result:
  "fst (except_exception (on_result r f) h) =
     (case fst r of
        Inl e \<Rightarrow> h e
      | Inr x \<Rightarrow> (case f x of Inl e \<Rightarrow> h e | Inr env \<Rightarrow> env))"
  by (cases r) (auto simp: except_exception_def on_result_def split: sum.splits)

lemma well_shaped_except_on_result:
  assumes "\<And>e. well_shaped fs (h e)"
    and "\<And>x env. f x = Inr env \<Longrightarrow> well_shaped fs env"
  shows "well_shaped fs (fst (except_exception (on_result r f) h))"
  using assms by (auto simp: fst_except_on_result split: sum.splits)

lemma bind_exn_Inr:
  "bind_exn r f = Inr y \<longleftrightarrow> (\<exists>x. r = Inr x \<and> f x = Inr y)"
  by (cases r) (auto simp: bind_exn_def)

lemma list_documents_shape:
  "well_shaped [''files'', ''count''] (fst (list_documents rt s n))"
  unfolding list_documents_def list_documents_try_def
  by (rule well_shaped_except_on_result)
     (auto simp: well_shaped_def has_field_def keys_def list_documents_error_def
        list_documents_reshape_def bind_exn_Inr)

lemma get_document_shape:
  "well_shaped [''documentId'', ''title'', ''body''] (fst (get_document rt s d))"
  unfolding get_document_def get_document_try_def
  by (rule well_shaped_except_on_result)
     (auto simp: well_shaped_def has_field_def keys_def get_document_error_def
        get_document_reshape_def bind_exn_Inr)

lemma create_document_shape:
  "well_shaped [''documentId'', ''title'', ''webViewLink''] (fst (create_document rt s t))"
proof -
  have h: "well_shaped [''documentId'', ''title'', ''webViewLink''] (create_document_error t e)" for e
    by (simp add: well_shaped_def has_field_def keys_def create_document_error_def)
  have ok: "well_shaped [''documentId'', ''title'', ''webViewLink''] env"
    if "create_document_success t doc_id result info = Inr env" for doc_id result info env
    using that
    by (auto simp: well_shaped_def has_field_def keys_def create_document_success_def bind_exn_Inr)
  show ?thesis
  proof (cases "make_api_request rt s ''POST'' (DOCS_API_BASE @ ''/documents'') None
                  [(''json'', JObj [(''title'', JStr t)])]")
    case (Pair r s1)
    show ?thesis
    proof (cases r)
      case (Inl e)
      with Pair show ?thesis
        by (simp add: create_document_def create_document_try_def except_exception_def h)
    next
      case (Inr result)
      show ?thesis
      proof (cases "result_get result ''documentId'' JNull")
        case (Inl e)
        with Pair \<open>r = Inr result\<close> show ?thesis
          by (simp add: create_document_def create_document_try_def except_exception_def h)
      next
        case (Inr doc_id)
        have "well_shaped [''documentId'', ''title'', ''webViewLink'']
                (fst (except_exception
                   (on_result
                      (make_api_request rt s1 ''GET'' (drive_file_url (render rt) doc_id) None
                         [(''params'', JObj [(''fields'', JStr ''webViewLink'')])])
                      (create_document_success t doc_id result))
                   (create_document_error t)))"
          by (rule well_shaped_except_on_result) (auto intro: h ok)
        with Pair \<open>r = Inr result\<close> Inr show ?thesis
          by (simp add: create_document_def create_document_try_def)
      qed
    qed
  qed
qed


lemma insert_text_shape:
  "well_shaped [''documentId'', ''replies''] (fst (insert_text rt s d x i))"
  unfolding insert_text_def insert_text_try_def
  by (rule well_shaped_except_on_result)
     (auto simp: well_shaped_def has_field_def keys_def insert_text_error_def
        insert_text_reshape_def bind_exn_Inr)

lemma replace_text_shape:
  "well_shaped [''documentId'', ''occurrences_changed''] (fst (replace_text rt s d x y))"
  unfolding replace_text_def replace_text_try_def
  by (rule well_shaped_except_on_result)
     (auto simp: well_shaped_def has_field_def keys_def replace_text_error_def
        replace_text_reshape_def bind_exn_Inr)

lemma format_text_shape:
  "well_shaped [''documentId'', ''formatting_applied''] (fst (format_text rt s d i j b it u))"
proof (cases "text_style b it u = []")
  case True
  then show ?thesis
    by (simp add: format_text_def format_text_try_def except_exception_def
          format_text_no_options_def well_shaped_def has_field_def keys_def)
next
  case False
  then have "fst (format_text rt s d i j b it u) =
      fst (except_exception
        (on_result
           (make_api_request rt s ''POST'' (batch_update_url d) None
              [(''json'', format_text_requests i j (text_style b it u))])
           (\<lambda>result.
              Inr [(''documentId'', JStr d),
                   (''message'', JStr (''Successfully formatted text from index '' @
                                       str_int i @ '' to '' @ str_int j)),
                   (''formatting_applied'', JList (map JStr (formatting_applied b it u)))]))
        (format_text_error d))"
    by (simp add: format_text_def format_text_try_def)
  also have "well_shaped [''documentId'', ''formatting_applied''] \<dots>"
    by (rule well_shaped_except_on_result)
       (auto simp: well_shaped_def has_field_def keys_def format_text_error_def)
  finally show ?thesis .
qed

lemma insert_image_shape:
  "well_shaped [''documentId'', ''image_url''] (fst (insert_image rt s d u i))"
  unfolding insert_image_def insert_image_try_def
  by (rule well_shaped_except_on_result)
     (auto simp: well_shaped_def has_field_def keys_def insert_image_error_def)

lemma export_document_shape:
  "well_shaped [''documentId'', ''format'', ''content_length'', ''download_info'']
     (fst (export_document rt s d f))"
proof (cases "map_of mime_types f")
  case None
  then show ?thesis
    by (simp add: export_document_def export_document_try_def except_exception_def
          export_unsupported_def well_shaped_def has_field_def keys_def)
next
  case (Some m)
  then have "fst (export_document rt s d f) =
      fst (except_exception
        (on_result
           (make_api_request rt s ''GET'' (export_url d) None
              [(''params'', JObj [(''mimeType'', JStr m)])])
           (\<lambda>content. Inr (export_document_success d f content)))
        (export_document_error d))"
    by (simp add: export_document_def export_document_try_def)
  also have "well_shaped [''documentId'', ''format'', ''content_length'', ''download_info''] \<dots>"
    by (rule well_shaped_except_on_result)
       (auto simp: well_shaped_def has_field_def keys_def export_document_error_def
          export_document_success_def)
  finally show ?thesis .
qed

lemma delete_document_shape:
  "well_shaped [''documentId''] (fst (delete_document rt s d))"
  unfolding delete_document_def delete_document_try_def
  by (rule well_shaped_except_on_result)
     (auto simp: well_shaped_def has_field_def keys_def delete_document_error_def)

lemma invoke_body:
  "invoke rt s c = except_exception (tool_body rt s c) (tool_handler c)"
  by (cases c)
     (simp_all add: list_documents_def get_document_def create_document_def insert_text_def
        replace_text_def format_text_def insert_image_def export_document_def
        delete_document_def)

lemma answering_simps:
  "transport (answering out) h rq = out"
  "render (answering out) = (\<lambda>v. ''[...]'')"
  "environ (answering out) = sample_environ"
  by (simp_all add: answering_def)

lemma handler_has_error: "has_field (tool_handler c e) ''error''"
  by (cases c)
     (simp_all add: has_field_def keys_def list_documents_error_def get_document_error_def
        create_document_error_def insert_text_error_def replace_text_error_def
        format_text_error_def insert_image_error_def export_document_error_def
        delete_document_error_def)

lemma get_document_missing_body:
  "get_document_try (answering (Responds not_found)) idle ''missing-id'' =
     (Inl (Exception ''Google API error 404: Not Found''),
      \<lparr>executor_calls = [(''GET'', DOCS_API_BASE @ ''/documents/missing-id'')],
       sent = [build_request ''ya29.a0'' ''GET'' (DOCS_API_BASE @ ''/documents/missing-id'')
                 None []]\<rparr>)"
  by (simp add: get_document_try_def on_result_def executor_sends [OF answering_token]
        answering_simps attempt_def is_success_def not_found_def str_int_404 idle_def)

section \<open>The claims\<close>

subsection \<open>C1: every tool returns one of the two envelope variants\<close>

text \<open>
  C1. For every invocation of each of the nine tools, whatever the credential lookup, the
  remote side and the local checks do, the tool returns a dict that has a \<^verbatim>\<open>message\<close>
  field and has either an \<^verbatim>\<open>error\<close> field or the whole set of success fields of that
  tool, never both. No exception leaves a tool: the result of \<open>invoke\<close> is a dict in
  every case, and whenever the \<^verbatim>\<open>try\<close> body raises an exception \<open>e\<close>, the tool
  returns the dict that its handler builds from \<open>e\<close>, which has the \<^verbatim>\<open>error\<close> field.
\<close>

theorem every_tool_returns_envelope:
  "well_shaped (success_fields c) (fst (invoke rt s c)) \<and>
   (\<forall>e s'. tool_body rt s c = (Inl e, s') \<longrightarrow>
      invoke rt s c = (tool_handler c e, s') \<and> has_field (tool_handler c e) ''error'')"
proof
  show "well_shaped (success_fields c) (fst (invoke rt s c))"
    by (cases c)
       (simp_all add: list_documents_shape get_document_shape create_document_shape
          insert_text_shape replace_text_shape format_text_shape insert_image_shape
          export_document_shape delete_document_shape)
  show "\<forall>e s'. tool_body rt s c = (Inl e, s') \<longrightarrow>
      invoke rt s c = (tool_handler c e, s') \<and> has_field (tool_handler c e) ''error''"
    by (simp add: invoke_body except_exception_def handler_has_error)
qed

theorem every_tool_returns_envelope_witness:
  "well_shaped [''documentId'', ''title'', ''body'']
     (fst (get_document (answering (Responds not_found)) idle ''missing-id'')) \<and>
   get_document (answering (Responds not_found)) idle ''missing-id'' =
     (get_document_error ''missing-id'' (Exception ''Google API error 404: Not Found''),
      \<lparr>executor_calls = [(''GET'', DOCS_API_BASE @ ''/documents/missing-id'')],
       sent = [build_request ''ya29.a0'' ''GET'' (DOCS_API_BASE @ ''/documents/missing-id'')
                 None []]\<rparr>) \<and>
   has_field (get_document_error ''missing-id'' (Exception ''Google API error 404: Not Found''))
     ''error''"
  using every_tool_returns_envelope [of "GetDocument ''missing-id''"
          "answering (Responds not_found)" idle]
  by (simp add: get_document_missing_body get_document_def except_exception_def)

subsection \<open>C9: the outcomes of the executor\<close>

text \<open>
  C9. Once the credential is there, \<^verbatim>\<open>make_api_request\<close> hands one request to the client,
  for every method, URL, headers and keyword arguments, and
  \<^item> on a response whose status is outside 200..299 it raises
    \<^verbatim>\<open>Exception("Google API error <status>: <body text>")\<close>;
  \<^item> on a 2xx response whose content type begins with \<^verbatim>\<open>application/\<close> it returns the
    body bytes as they are;
  \<^item> on any other 2xx response it returns what decoding the body as JSON gives, and a body
    that does not decode is a fault like any other:
    \<^verbatim>\<open>Exception("Request failed: <description>")\<close>;
  \<^item> when the client call itself raises, it raises
    \<^verbatim>\<open>Exception("Request failed: <description>")\<close>.
\<close>

theorem make_api_request_outcomes:
  assumes "get_access_token (environ rt) = Inr token"
  shows
   "(\<forall>r. transport rt (sent s) (build_request token method url headers kwargs) = Responds r \<and>
         \<not> (200 \<le> resp_status r \<and> resp_status r \<le> 299) \<longrightarrow>
         fst (make_api_request rt s method url headers kwargs) =
           Inl (Exception (''Google API error '' @ str_int (resp_status r) @ '': '' @
                           resp_text r))) \<and>
    (\<forall>r ct. transport rt (sent s) (build_request token method url headers kwargs) = Responds r \<and>
         200 \<le> resp_status r \<and> resp_status r \<le> 299 \<and>
         resp_content_type r = Some ct \<and> prefix ''application/'' ct \<longrightarrow>
         fst (make_api_request rt s method url headers kwargs) =
           Inr (RawBytes (resp_content r))) \<and>
    (\<forall>r v. transport rt (sent s) (build_request token method url headers kwargs) = Responds r \<and>
         200 \<le> resp_status r \<and> resp_status r \<le> 299 \<and>
         \<not> (\<exists>ct. resp_content_type r = Some ct \<and> prefix ''application/'' ct) \<and>
         resp_json r = Inr v \<longrightarrow>
         fst (make_api_request rt s method url headers kwargs) = Inr (Decoded v)) \<and>
    (\<forall>r d. transport rt (sent s) (build_request token method url headers kwargs) = Responds r \<and>
         200 \<le> resp_status r \<and> resp_status r \<le> 299 \<and>
         \<not> (\<exists>ct. resp_content_type r = Some ct \<and> prefix ''application/'' ct) \<and>
         resp_json r = Inl d \<longrightarrow>
         fst (make_api_request rt s method url headers kwargs) =
           Inl (Exception (''Request failed: '' @ d))) \<and>
    (\<forall>d. transport rt (sent s) (build_request token method url headers kwargs) = Raises d \<longrightarrow>
         fst (make_api_request rt s method url headers kwargs) =
           Inl (Exception (''Request failed: '' @ d)))"
  using assms
  by (auto simp: executor_sends attempt_def is_success_def split: option.splits)

theorem make_api_request_outcomes_witness:
  "fst (make_api_request (answering (Responds not_found)) idle ''GET''
          (DOCS_API_BASE @ ''/documents/missing-id'') None []) =
     Inl (Exception ''Google API error 404: Not Found'') \<and>
   fst (make_api_request (answering (Responds (pdf_reply [0x25, 0x50, 0x44, 0x46]))) idle ''GET''
          (DRIVE_API_BASE @ ''/files/doc-1/export'') None
          [(''params'', JObj [(''mimeType'', JStr ''application/pdf'')])]) =
     Inr (RawBytes [0x25, 0x50, 0x44, 0x46]) \<and>
   fst (make_api_request (answering (Responds (json_reply ''{}'' (JObj [])))) idle ''DELETE''
          (DRIVE_API_BASE @ ''/files/doc-1'') None []) =
     Inr (Decoded (JObj [])) \<and>
   fst (make_api_request (answering (Responds (text_reply ''hello''))) idle ''GET''
          (DRIVE_API_BASE @ ''/files/doc-1/export'') None
          [(''params'', JObj [(''mimeType'', JStr ''text/plain'')])]) =
     Inl (Exception ''Request failed: Expecting value: line 1 column 1 (char 0)'') \<and>
   fst (make_api_request (answering (Raises ''All connection attempts failed'')) idle ''POST''
          (DOCS_API_BASE @ ''/documents'') None [(''json'', JObj [(''title'', JStr ''Report'')])]) =
     Inl (Exception ''Request failed: All connection attempts failed'')"
proof -
  note tok = answering_token
  show ?thesis
    using make_api_request_outcomes [OF tok, of "Responds not_found" idle "''GET''"
            "DOCS_API_BASE @ ''/documents/missing-id''" None "[]"]
          make_api_request_outcomes [OF tok, of "Responds (pdf_reply [0x25, 0x50, 0x44, 0x46])"
            idle "''GET''" "DRIVE_API_BASE @ ''/files/doc-1/export''" None
            "[(''params'', JObj [(''mimeType'', JStr ''application/pdf'')])]"]
          make_api_request_outcomes [OF tok, of "Responds (json_reply ''{}'' (JObj []))"
            idle "''DELETE''" "DRIVE_API_BASE @ ''/files/doc-1''" None "[]"]
          make_api_request_outcomes [OF tok, of "Responds (text_reply ''hello'')"
            idle "''GET''" "DRIVE_API_BASE @ ''/files/doc-1/export''" None
            "[(''params'', JObj [(''mimeType'', JStr ''text/plain'')])]"]
          make_api_request_outcomes [OF tok, of "Raises ''All connection attempts failed''"
            idle "''POST''" "DOCS_API_BASE @ ''/documents''" None
            "[(''json'', JObj [(''title'', JStr ''Report'')])]"]
    by (simp add: answering_def not_found_def pdf_reply_def json_reply_def text_reply_def
          str_int_404)
qed

subsection \<open>C10: an empty credential is a missing credential\<close>

text \<open>
  C10. \<^verbatim>\<open>get_access_token\<close> raises the configuration error
  (\<^verbatim>\<open>ValueError("Missing GOOGLE_ACCESS_TOKEN environment variable. ...")\<close>) when the
  variable is unset and when it is set to the empty string, and returns the variable's value
  in every other case.
\<close>

theorem get_access_token_empty_as_absent:
  "(env ''GOOGLE_ACCESS_TOKEN'' = None \<or> env ''GOOGLE_ACCESS_TOKEN'' = Some [] \<longrightarrow>
      get_access_token env = Inl (ValueError missing_token_message)) \<and>
   (\<forall>t. env ''GOOGLE_ACCESS_TOKEN'' = Some t \<and> t \<noteq> [] \<longrightarrow> get_access_token env = Inr t) \<and>
   prefix ''Missing GOOGLE_ACCESS_TOKEN environment variable.'' missing_token_message"
  by (auto simp: get_access_token_cases missing_token_message_def)

theorem get_access_token_empty_as_absent_witness:
  "get_access_token (\<lambda>k. None) = Inl (ValueError missing_token_message) \<and>
   get_access_token [''GOOGLE_ACCESS_TOKEN'' \<mapsto> ''''] = Inl (ValueError missing_token_message) \<and>
   get_access_token [''GOOGLE_ACCESS_TOKEN'' \<mapsto> ''ya29.a0''] = Inr ''ya29.a0''"
  using get_access_token_empty_as_absent [of "\<lambda>k. None"]
        get_access_token_empty_as_absent [of "[''GOOGLE_ACCESS_TOKEN'' \<mapsto> '''']"]
        get_access_token_empty_as_absent [of "[''GOOGLE_ACCESS_TOKEN'' \<mapsto> ''ya29.a0'']"]
  by simp

end
